theory Spec2Isabelle
  imports Main "HOL-Library.AList"
begin

section \<open>JavaScript values and the browser platform\<close>

text \<open>
  The session manager (\<^verbatim>\<open>frontend/src/sessionManager.js\<close>) and the GitHub callback
  component handle untyped JavaScript data: arguments that may be \<^verbatim>\<open>undefined\<close>, JSON
  bodies of HTTP responses, and the strings kept in \<^verbatim>\<open>localStorage\<close> and
  \<^verbatim>\<open>sessionStorage\<close>. Plain data values are modelled by \<open>jsval\<close>. Numbers are the
  integral ones (identifiers, millisecond counts); \<^verbatim>\<open>NaN\<close> appears only as the result of
  date arithmetic and is modelled there by \<open>None\<close>.
\<close>

datatype jsval =
    JUndefined
  | JNull
  | JBool bool
  | JNum int
  | JStr string
  | JArr "jsval list"
  | JObj "(string \<times> jsval) list"

text \<open>Exceptions that the modelled code can meet; every \<^verbatim>\<open>try/catch\<close> of the source is a
  case distinction on a value of type \<open>js_exn + 'a\<close>.\<close>

datatype js_exn =
    QuotaExceededError
  | SyntaxError
  | TypeError
  | NetworkError
  | AppError jsval

text \<open>\<^verbatim>\<open>!v\<close> is \<open>\<not> truthy v\<close>.\<close>

fun truthy :: "jsval \<Rightarrow> bool" where
  "truthy JUndefined = False"
| "truthy JNull = False"
| "truthy (JBool b) = b"
| "truthy (JNum n) = (n \<noteq> 0)"
| "truthy (JStr s) = (s \<noteq> [])"
| "truthy (JArr xs) = True"
| "truthy (JObj fs) = True"

text \<open>The result of \<^verbatim>\<open>Storage.getItem\<close> is a string or \<^verbatim>\<open>null\<close>; \<^verbatim>\<open>!x\<close> on it holds
  for \<^verbatim>\<open>null\<close> and for the empty string.\<close>

fun truthy_item :: "string option \<Rightarrow> bool" where
  "truthy_item None = False"
| "truthy_item (Some s) = (s \<noteq> [])"

text \<open>Reading a data property \<^verbatim>\<open>v.k\<close>: a \<^verbatim>\<open>TypeError\<close> on \<^verbatim>\<open>null\<close> and
  \<^verbatim>\<open>undefined\<close>, the field or \<^verbatim>\<open>undefined\<close> on an object, \<^verbatim>\<open>undefined\<close> on the other
  values (the keys the program reads are data keys such as \<^verbatim>\<open>id\<close>, \<^verbatim>\<open>email\<close>,
  \<^verbatim>\<open>user\<close>, never \<^verbatim>\<open>length\<close> or a prototype method).\<close>

fun get_prop :: "jsval \<Rightarrow> string \<Rightarrow> js_exn + jsval" where
  "get_prop JUndefined k = Inl TypeError"
| "get_prop JNull k = Inl TypeError"
| "get_prop (JObj fs) k = Inr (case map_of fs k of None \<Rightarrow> JUndefined | Some v \<Rightarrow> v)"
| "get_prop v k = Inr JUndefined"

text \<open>Decimal digits of a number, for the string conversion below.\<close>

fun show_nat :: "nat \<Rightarrow> string" where
  "show_nat n =
     (if n < 10 then [char_of (48 + n)]
      else show_nat (n div 10) @ [char_of (48 + n mod 10)])"

definition show_int :: "int \<Rightarrow> string" where
  "show_int i = (if i < 0 then CHR ''-'' # show_nat (nat (- i)) else show_nat (nat i))"

fun join_comma :: "string list \<Rightarrow> string" where
  "join_comma [] = []"
| "join_comma [s] = s"
| "join_comma (s # t # ss) = s @ '','' @ join_comma (t # ss)"

text \<open>\<^verbatim>\<open>String(v)\<close>, the conversion \<^verbatim>\<open>Storage.setItem\<close> applies to the value it is
  given.\<close>

fun to_string :: "jsval \<Rightarrow> string" where
  "to_string JUndefined = ''undefined''"
| "to_string JNull = ''null''"
| "to_string (JBool b) = (if b then ''true'' else ''false'')"
| "to_string (JNum n) = show_int n"
| "to_string (JStr s) = s"
| "to_string (JArr xs) =
     join_comma (map (\<lambda>x. if x = JUndefined \<or> x = JNull then [] else to_string x) xs)"
| "to_string (JObj fs) = ''[object Object]''"

text \<open>
  The built-in functions whose results the code depends on but which are not part of the
  repository are parameters of the model:
  \<^item> \<open>json_stringify\<close> is \<^verbatim>\<open>JSON.stringify\<close>; \<open>None\<close> is the result \<^verbatim>\<open>undefined\<close>
    (for \<^verbatim>\<open>undefined\<close> itself). On the acyclic plain data of \<open>jsval\<close> it does not throw.
  \<^item> \<open>json_parse\<close> is \<^verbatim>\<open>JSON.parse\<close>; \<open>None\<close> is a \<^verbatim>\<open>SyntaxError\<close>.
  \<^item> \<open>date_parse\<close> is the time value of \<^verbatim>\<open>new Date(s)\<close> for a string \<open>s\<close>, in
    milliseconds since the epoch; \<open>None\<close> is \<^verbatim>\<open>NaN\<close> (an invalid date).
\<close>

record platform =
  json_stringify :: "jsval \<Rightarrow> string option"
  json_parse :: "string \<Rightarrow> jsval option"
  date_parse :: "string \<Rightarrow> int option"

section \<open>Web storage\<close>

text \<open>
  A \<^verbatim>\<open>Storage\<close> object holds string values under string keys. \<^verbatim>\<open>setItem\<close> throws a
  \<^verbatim>\<open>QuotaExceededError\<close> when the store cannot take the new value; the limit is a field of
  the store, counted in characters of keys and values.
\<close>

record storage =
  items :: "(string \<times> string) list"
  capacity :: nat

definition usage :: "(string \<times> string) list \<Rightarrow> nat" where
  "usage kvs = sum_list (map (\<lambda>(k, v). length k + length v) kvs)"

definition getItem :: "storage \<Rightarrow> string \<Rightarrow> string option" where
  "getItem st k = map_of (items st) k"

definition setItem :: "storage \<Rightarrow> string \<Rightarrow> string \<Rightarrow> js_exn + storage" where
  "setItem st k v =
     (let kvs = AList.update k v (items st)
      in if usage kvs \<le> capacity st then Inr (st\<lparr>items := kvs\<rparr>)
         else Inl QuotaExceededError)"


definition removeItem :: "storage \<Rightarrow> string \<Rightarrow> storage" where
  "removeItem st k = st\<lparr>items := AList.delete k (items st)\<rparr>"

section \<open>The session manager\<close>

definition tokenKey :: string where
  "tokenKey = ''swipingforjobs_session_token''"

definition userKey :: string where
  "userKey = ''swipingforjobs_user_data''"

definition expiryKey :: string where
  "expiryKey = ''swipingforjobs_session_expiry''"

text \<open>The text \<^verbatim>\<open>setItem\<close> stores for \<^verbatim>\<open>JSON.stringify(userData)\<close>.\<close>

definition user_text :: "platform \<Rightarrow> jsval \<Rightarrow> string" where
  "user_text env userData =
     (case json_stringify env userData of None \<Rightarrow> ''undefined'' | Some s \<Rightarrow> s)"

text \<open>\<^verbatim>\<open>setSession\<close>: the three writes run in order inside one \<^verbatim>\<open>try\<close>; the
  \<^verbatim>\<open>catch\<close> returns \<^verbatim>\<open>false\<close> and leaves the store as the writes before the exception
  made it.\<close>

definition setSession ::
  "platform \<Rightarrow> storage \<Rightarrow> jsval \<Rightarrow> jsval \<Rightarrow> jsval \<Rightarrow> bool \<times> storage" where
  "setSession env ls sessionToken userData expiresAt =
     (if \<not> truthy sessionToken \<or> \<not> truthy userData \<or> \<not> truthy expiresAt then (False, ls)
      else case setItem ls tokenKey (to_string sessionToken) of
             Inl e \<Rightarrow> (False, ls)
           | Inr ls1 \<Rightarrow>
               (case setItem ls1 userKey (user_text env userData) of
                  Inl e \<Rightarrow> (False, ls1)
                | Inr ls2 \<Rightarrow>
                    (case setItem ls2 expiryKey (to_string expiresAt) of
                       Inl e \<Rightarrow> (False, ls2)
                     | Inr ls3 \<Rightarrow> (True, ls3))))"

text \<open>The store takes the three writes of \<^verbatim>\<open>setSession\<close>, one after the other: the token
  text \<open>t\<close>, the user text \<open>s\<close> and the expiry text \<open>e\<close>.\<close>

definition session_fits :: "storage \<Rightarrow> string \<Rightarrow> string \<Rightarrow> string \<Rightarrow> bool" where
  "session_fits ls t s e =
     (let i1 = AList.update tokenKey t (items ls);
          i2 = AList.update userKey s i1;
          i3 = AList.update expiryKey e i2
      in usage i1 \<le> capacity ls \<and> usage i2 \<le> capacity ls \<and> usage i3 \<le> capacity ls)"

definition getToken :: "storage \<Rightarrow> string option" where
  "getToken ls = getItem ls tokenKey"

text \<open>\<^verbatim>\<open>getUser\<close>: \<open>None\<close> is the result \<^verbatim>\<open>null\<close>. A failing \<^verbatim>\<open>JSON.parse\<close> or
  property read is caught and gives \<^verbatim>\<open>null\<close>.\<close>

definition getUser :: "platform \<Rightarrow> storage \<Rightarrow> jsval option" where
  "getUser env ls =
     (case getItem ls userKey of
        None \<Rightarrow> None
      | Some userData \<Rightarrow>
          if userData = [] then None
          else (case json_parse env userData of
                  None \<Rightarrow> None
                | Some parsed \<Rightarrow>
                    if \<not> truthy parsed then None
                    else (case get_prop parsed ''id'' of
                            Inl e \<Rightarrow> None
                          | Inr i \<Rightarrow>
                              if \<not> truthy i then None
                              else (case get_prop parsed ''email'' of
                                      Inl e \<Rightarrow> None
                                    | Inr m \<Rightarrow> if \<not> truthy m then None else Some parsed))))"

definition getExpiry :: "storage \<Rightarrow> string option" where
  "getExpiry ls = getItem ls expiryKey"

text \<open>\<^verbatim>\<open>isSessionValid\<close>, with the reading \<open>now\<close> of the clock (\<^verbatim>\<open>new Date()\<close>) as an
  argument.\<close>

definition isSessionValid :: "platform \<Rightarrow> storage \<Rightarrow> int \<Rightarrow> bool" where
  "isSessionValid env ls now =
     (let token = getToken ls; expiry = getExpiry ls; user = getUser env ls
      in if \<not> truthy_item token \<or> \<not> truthy_item expiry \<or> user = None then False
         else (case expiry of
                 None \<Rightarrow> False
               | Some e \<Rightarrow>
                   (case date_parse env e of
                      None \<Rightarrow> False
                    | Some expiryDate \<Rightarrow> now < expiryDate)))"

definition clearSession :: "storage \<Rightarrow> storage" where
  "clearSession ls = removeItem (removeItem (removeItem ls tokenKey) userKey) expiryKey"

definition getAuthHeaders :: "storage \<Rightarrow> (string \<times> string) list" where
  "getAuthHeaders ls =
     (case getToken ls of
        None \<Rightarrow> []
      | Some token \<Rightarrow>
          if token = [] then []
          else [(''Authorization'', ''Bearer '' @ token),
                (''Content-Type'', ''application/json'')])"

text \<open>\<^verbatim>\<open>updateUser\<close> has no \<^verbatim>\<open>try\<close>: an exception of \<^verbatim>\<open>setItem\<close> reaches the
  caller.\<close>

definition updateUser :: "platform \<Rightarrow> storage \<Rightarrow> jsval \<Rightarrow> js_exn + storage" where
  "updateUser env ls userData = setItem ls userKey (user_text env userData)"

definition isLoggedIn :: "platform \<Rightarrow> storage \<Rightarrow> int \<Rightarrow> bool" where
  "isLoggedIn env ls now = (isSessionValid env ls now \<and> getUser env ls \<noteq> None)"

text \<open>\<^verbatim>\<open>getTimeUntilExpiry\<close>: whole minutes; \<open>None\<close> is the result \<^verbatim>\<open>NaN\<close>, which
  \<^verbatim>\<open>Math.floor\<close> and \<^verbatim>\<open>Math.max\<close> pass on. Time values are integral, so
  \<^verbatim>\<open>Math.floor(t / (1000 * 60))\<close> is the floor division of integers.\<close>

definition getTimeUntilExpiry :: "platform \<Rightarrow> storage \<Rightarrow> int \<Rightarrow> int option" where
  "getTimeUntilExpiry env ls now =
     (case getExpiry ls of
        None \<Rightarrow> Some 0
      | Some expiry \<Rightarrow>
          if expiry = [] then Some 0
          else (case date_parse env expiry of
                  None \<Rightarrow> None
                | Some expiryDate \<Rightarrow>
                    Some (max 0 ((expiryDate - now) div (1000 * 60)))))"

text \<open>\<^verbatim>\<open>isSessionExpiringSoon\<close>: a comparison with \<^verbatim>\<open>NaN\<close> is false.\<close>

definition isSessionExpiringSoon :: "platform \<Rightarrow> storage \<Rightarrow> int \<Rightarrow> bool" where
  "isSessionExpiringSoon env ls now =
     (case getTimeUntilExpiry env ls now of None \<Rightarrow> False | Some m \<Rightarrow> m < 30)"

section \<open>Reconciling the session with the server\<close>

text \<open>
  The outcome of an awaited \<^verbatim>\<open>fetch\<close>: \<open>None\<close> when the promise rejects (no response at
  all), otherwise the response with its status and the result of \<^verbatim>\<open>response.json()\<close>
  (\<open>None\<close> when the body is not JSON and \<^verbatim>\<open>json()\<close> rejects).
\<close>

datatype http_response = Response (status: nat) (json_body: "jsval option")

type_synonym fetch_result = "http_response option"

definition ok :: "http_response \<Rightarrow> bool" where
  "ok r = (200 \<le> status r \<and> status r \<le> 299)"

text \<open>The requests a run sends, in order. A link request is recorded with the values its
  body is built from (\<open>user_id\<close> is the argument of \<^verbatim>\<open>parseInt\<close>).\<close>

record link_body =
  user_id :: string
  github_id :: jsval
  access_token :: jsval
  github_username :: jsval

datatype request =
    GetAuthMe "(string \<times> string) list"
  | PostAuthRefresh "(string \<times> string) list"
  | GetGithubCallback string string
  | PostGithubLink "(string \<times> string) list" link_body

text \<open>The inner \<^verbatim>\<open>try\<close> of \<^verbatim>\<open>checkAndRefreshSession\<close> after the refresh request has
  been sent: every failure is swallowed and leaves the store as it is.\<close>

definition refresh_attempt :: "platform \<Rightarrow> storage \<Rightarrow> fetch_result \<Rightarrow> storage" where
  "refresh_attempt env ls refresh =
     (case refresh of
        None \<Rightarrow> ls
      | Some refreshResponse \<Rightarrow>
          if ok refreshResponse then
            (case json_body refreshResponse of
               None \<Rightarrow> ls
             | Some refreshData \<Rightarrow>
                 (let currentUser = (case getUser env ls of None \<Rightarrow> JNull | Some u \<Rightarrow> u)
                  in case get_prop refreshData ''session'' of
                       Inl e \<Rightarrow> ls
                     | Inr session \<Rightarrow>
                         (case get_prop session ''token'' of
                            Inl e \<Rightarrow> ls
                          | Inr token \<Rightarrow>
                              (case get_prop session ''expires_at'' of
                                 Inl e \<Rightarrow> ls
                               | Inr expires_at \<Rightarrow>
                                   snd (setSession env ls token currentUser expires_at)))))
          else ls)"

text \<open>The success branch after \<^verbatim>\<open>updateUser\<close>: the expiry check against the clock
  reading \<open>now\<close> and, below two hours, the refresh. The result is the store and the
  requests sent here.\<close>

definition refresh_if_close ::
  "platform \<Rightarrow> storage \<Rightarrow> int \<Rightarrow> fetch_result \<Rightarrow> storage \<times> request list" where
  "refresh_if_close env ls now refresh =
     (case getExpiry ls of
        None \<Rightarrow> (ls, [])
      | Some expiry \<Rightarrow>
          if expiry = [] then (ls, [])
          else (case date_parse env expiry of
                  None \<Rightarrow> (ls, [])
                | Some expiryDate \<Rightarrow>
                    (let timeUntilExpiry = expiryDate - now
                     in if timeUntilExpiry < 2 * 60 * 60 * 1000
                        then (refresh_attempt env ls refresh, [PostAuthRefresh (getAuthHeaders ls)])
                        else (ls, []))))"

text \<open>
  \<^verbatim>\<open>checkAndRefreshSession\<close>. Its inputs besides the store are what the run reads from
  outside: the clock at the first validity check (\<open>now1\<close>), the outcome of the request to
  \<^verbatim>\<open>/auth/me\<close>, the clock after that request (\<open>now2\<close>, read by the expiry check or by the
  fallback validity check) and the outcome of the refresh request. The result is the verdict,
  the store and the requests sent.
\<close>

definition checkAndRefreshSession ::
  "platform \<Rightarrow> storage \<Rightarrow> int \<Rightarrow> fetch_result \<Rightarrow> int \<Rightarrow> fetch_result
     \<Rightarrow> bool \<times> storage \<times> request list" where
  "checkAndRefreshSession env ls now1 me now2 refresh =
     (if \<not> truthy_item (getToken ls) \<or> getUser env ls = None then (False, clearSession ls, [])
      else if \<not> isSessionValid env ls now1 then (False, clearSession ls, [])
      else
        (let sent = [GetAuthMe (getAuthHeaders ls)];
             caught = (isSessionValid env ls now2, ls, sent)
         in case me of
              None \<Rightarrow> caught
            | Some response \<Rightarrow>
                if ok response then
                  (case json_body response of
                     None \<Rightarrow> caught
                   | Some data \<Rightarrow>
                       (case get_prop data ''user'' of
                          Inl e \<Rightarrow> caught
                        | Inr user \<Rightarrow>
                            (case updateUser env ls user of
                               Inl e \<Rightarrow> caught
                             | Inr ls1 \<Rightarrow>
                                 (let (ls2, more) = refresh_if_close env ls1 now2 refresh
                                  in (True, ls2, sent @ more)))))
                else if status response = 401 then (False, clearSession ls, sent)
                else (isSessionValid env ls now2, ls, sent)))"

section \<open>The GitHub callback component\<close>

text \<open>The query parameters of the callback URL (\<^verbatim>\<open>searchParams.get\<close> gives a string or
  \<^verbatim>\<open>null\<close>).\<close>

record search_params =
  sp_code :: "string option"
  sp_state :: "string option"
  sp_error :: "string option"

datatype flow_status = Processing | Linking | Success | Failed

text \<open>The component's state: the \<^verbatim>\<open>useState\<close> cells, and whether the delayed
  navigation to the profile has been scheduled. \<open>error\<close> keeps the caught exception whose
  message is displayed.\<close>

record component =
  flow :: flow_status
  message :: string
  githubUser :: jsval
  error :: "js_exn option"
  redirect_scheduled :: bool

definition initial_component :: component where
  "initial_component =
     \<lparr>flow = Processing, message = ''Processing GitHub authentication...'',
      githubUser = JNull, error = None, redirect_scheduled = False\<rparr>"

definition stateKey :: string where
  "stateKey = ''github_oauth_state''"

definition linkingKey :: string where
  "linkingKey = ''github_linking_user_id''"

definition clean_up :: "storage \<Rightarrow> storage" where
  "clean_up ss = removeItem (removeItem ss stateKey) linkingKey"

text \<open>What \<^verbatim>\<open>throw new Error(errorData.detail || fallback)\<close> throws after
  \<^verbatim>\<open>errorData = await response.json()\<close>.\<close>

definition error_of_response :: "http_response \<Rightarrow> string \<Rightarrow> js_exn" where
  "error_of_response r fallback =
     (case json_body r of
        None \<Rightarrow> SyntaxError
      | Some errorData \<Rightarrow>
          (case get_prop errorData ''detail'' of
             Inl e \<Rightarrow> e
           | Inr detail \<Rightarrow> AppError (if truthy detail then detail else JStr fallback)))"

definition link_headers :: "storage \<Rightarrow> (string \<times> string) list" where
  "link_headers ls =
     AList.updates (map fst (getAuthHeaders ls)) (map snd (getAuthHeaders ls))
       [(''Content-Type'', ''application/json'')]"

text \<open>\<^verbatim>\<open>linkGitHubAccount\<close>: \<open>ss\<close> is \<^verbatim>\<open>sessionStorage\<close>, \<open>ls\<close> is
  \<^verbatim>\<open>localStorage\<close> (read for the authorization header), \<open>link\<close> the outcome of the link
  request. The \<^verbatim>\<open>catch\<close> sets the error state and touches no storage.\<close>

definition linkGitHubAccount ::
  "storage \<Rightarrow> component \<Rightarrow> storage \<Rightarrow> string \<Rightarrow> jsval \<Rightarrow> jsval \<Rightarrow> fetch_result
     \<Rightarrow> component \<times> storage \<times> request list" where
  "linkGitHubAccount ls c ss userId githubUser' accessToken link =
     (let caught = (\<lambda>e. c\<lparr>flow := Failed, error := Some e,
                           message := ''Failed to link GitHub account''\<rparr>)
      in case get_prop githubUser' ''id'' of
           Inl e \<Rightarrow> (caught e, ss, [])
         | Inr gid \<Rightarrow>
             (case get_prop githubUser' ''username'' of
                Inl e \<Rightarrow> (caught e, ss, [])
              | Inr gname \<Rightarrow>
                  (let sent = [PostGithubLink (link_headers ls)
                                 \<lparr>user_id = userId, github_id = gid,
                                  access_token = accessToken, github_username = gname\<rparr>]
                   in case link of
                        None \<Rightarrow> (caught NetworkError, ss, sent)
                      | Some linkResponse \<Rightarrow>
                          if \<not> ok linkResponse then
                            (caught (error_of_response linkResponse
                                       ''Failed to link GitHub account''), ss, sent)
                          else (case json_body linkResponse of
                                  None \<Rightarrow> (caught SyntaxError, ss, sent)
                                | Some linkData \<Rightarrow>
                                    (c\<lparr>flow := Success,
                                       message := ''GitHub account linked successfully!'',
                                       redirect_scheduled := True\<rparr>,
                                     clean_up ss, sent)))))"

text \<open>A string or \<^verbatim>\<open>null\<close> inside a template literal.\<close>

fun item_text :: "string option \<Rightarrow> string" where
  "item_text None = ''null''"
| "item_text (Some s) = s"

text \<open>\<^verbatim>\<open>handleGitHubCallback\<close>, run once when the component mounts: \<open>cb\<close> is the outcome of
  the exchange request, \<open>link\<close> that of the link request. The early returns set the error
  state and return; the \<^verbatim>\<open>catch\<close> sets the error state; neither touches
  \<^verbatim>\<open>sessionStorage\<close>.\<close>

definition handleGitHubCallback ::
  "storage \<Rightarrow> search_params \<Rightarrow> component \<Rightarrow> storage \<Rightarrow> fetch_result \<Rightarrow> fetch_result
     \<Rightarrow> component \<times> storage \<times> request list" where
  "handleGitHubCallback ls sp c ss cb link =
     (let code = sp_code sp; state = sp_state sp; err = sp_error sp;
          caught = (\<lambda>e. c\<lparr>flow := Failed, error := Some e,
                           message := ''Failed to process GitHub authentication''\<rparr>)
      in if truthy_item err then
           (c\<lparr>flow := Failed,
              message := ''GitHub authentication error: '' @ item_text err\<rparr>, ss, [])
         else if \<not> truthy_item code then
           (c\<lparr>flow := Failed,
              message := ''No authorization code received from GitHub''\<rparr>, ss, [])
         else
           (let storedState = getItem ss stateKey
            in if \<not> truthy_item storedState \<or> storedState \<noteq> state then
                 (c\<lparr>flow := Failed,
                    message := ''Invalid state parameter. Please try again.''\<rparr>, ss, [])
               else
                 (let linkingUserId = getItem ss linkingKey
                  in if \<not> truthy_item linkingUserId then
                       (c\<lparr>flow := Failed,
                          message := ''No user session found. Please try again.''\<rparr>, ss, [])
                     else
                       (let sent = [GetGithubCallback (item_text code) (item_text state)]
                        in case cb of
                             None \<Rightarrow> (caught NetworkError, ss, sent)
                           | Some callbackResponse \<Rightarrow>
                               if \<not> ok callbackResponse then
                                 (caught (error_of_response callbackResponse
                                            ''Failed to process GitHub callback''), ss, sent)
                               else
                                 (case json_body callbackResponse of
                                    None \<Rightarrow> (caught SyntaxError, ss, sent)
                                  | Some callbackData \<Rightarrow>
                                      (case get_prop callbackData ''github_linked'' of
                                         Inl e \<Rightarrow> (caught e, ss, sent)
                                       | Inr linked \<Rightarrow>
                                           if truthy linked then
                                             (c\<lparr>flow := Success,
                                                message := ''GitHub account linked successfully!'',
                                                redirect_scheduled := True\<rparr>,
                                              clean_up ss, sent)
                                           else
                                             (case get_prop callbackData ''github_user'' of
                                                Inl e \<Rightarrow> (caught e, ss, sent)
                                              | Inr gu \<Rightarrow>
                                                  (case get_prop callbackData ''access_token'' of
                                                     Inl e \<Rightarrow> (caught e, ss, sent)
                                                   | Inr tok \<Rightarrow>
                                                       (let c1 = c\<lparr>githubUser := gu, flow := Linking,
                                                                   message := ''Linking GitHub account to your profile...''\<rparr>;
                                                            (c2, ss2, more) =
                                                              linkGitHubAccount ls c1 ss
                                                                (item_text linkingUserId) gu tok link
                                                        in (c2, ss2, sent @ more))))))))))"

text \<open>\<^verbatim>\<open>handleRetry\<close>, the handler of the button shown in the error state.\<close>

definition handleRetry :: "storage \<Rightarrow> storage" where
  "handleRetry ss = removeItem (removeItem ss stateKey) linkingKey"

section \<open>A reference platform\<close>

text \<open>
  One instance of the platform parameters, on which the definitions above can be run:
  \<^verbatim>\<open>JSON.stringify\<close> and \<^verbatim>\<open>JSON.parse\<close> for the values of \<open>jsval\<close> (integral numbers,
  strings of characters below 256, no four-digit hexadecimal escapes on reading), and the date
  parser for the ISO format in UTC. The theorems below hold for every platform; this one
  supplies concrete runs.
\<close>

definition hex_digit :: "nat \<Rightarrow> char" where
  "hex_digit n = (if n < 10 then char_of (48 + n) else char_of (87 + n))"

definition escape_char :: "char \<Rightarrow> string" where
  "escape_char c =
     (if c = CHR 0x22 then [CHR 0x5C, CHR 0x22]
      else if c = CHR 0x5C then [CHR 0x5C, CHR 0x5C]
      else if c = CHR 0x08 then [CHR 0x5C, CHR ''b'']
      else if c = CHR 0x0C then [CHR 0x5C, CHR ''f'']
      else if c = CHR 0x0A then [CHR 0x5C, CHR ''n'']
      else if c = CHR 0x0D then [CHR 0x5C, CHR ''r'']
      else if c = CHR 0x09 then [CHR 0x5C, CHR ''t'']
      else if of_char c < (32::nat) then
        [CHR 0x5C, CHR ''u'', CHR ''0'', CHR ''0'',
         hex_digit (of_char c div 16), hex_digit (of_char c mod 16)]
      else [c])"

definition quote :: "string \<Rightarrow> string" where
  "quote s = CHR 0x22 # concat (map escape_char s) @ [CHR 0x22]"

text \<open>The JSON text of a value: inside an array \<^verbatim>\<open>undefined\<close> is written as
  \<^verbatim>\<open>null\<close>, inside an object a field with the value \<^verbatim>\<open>undefined\<close> is left out; for
  \<^verbatim>\<open>undefined\<close> itself \<^verbatim>\<open>JSON.stringify\<close> returns \<^verbatim>\<open>undefined\<close> (\<open>json_write\<close>).\<close>

fun json_text :: "jsval \<Rightarrow> string" where
  "json_text JUndefined = ''null''"
| "json_text JNull = ''null''"
| "json_text (JBool b) = (if b then ''true'' else ''false'')"
| "json_text (JNum n) = show_int n"
| "json_text (JStr s) = quote s"
| "json_text (JArr xs) = ''['' @ join_comma (map json_text xs) @ '']''"
| "json_text (JObj fs) =
     ''{'' @ join_comma (map (\<lambda>(k, v). quote k @ '':'' @ json_text v)
                          (filter (\<lambda>(k, v). v \<noteq> JUndefined) fs)) @ ''}''"


definition is_digit :: "char \<Rightarrow> bool" where
  "is_digit c = (48 \<le> (of_char c :: nat) \<and> (of_char c :: nat) \<le> 57)"

definition nat_of_digits :: "string \<Rightarrow> nat" where
  "nat_of_digits ds = foldl (\<lambda>n c. 10 * n + (of_char c - 48)) 0 ds"

definition is_ws :: "char \<Rightarrow> bool" where
  "is_ws c = (c = CHR 0x20 \<or> c = CHR 0x09 \<or> c = CHR 0x0A \<or> c = CHR 0x0D)"

definition skip_ws :: "string \<Rightarrow> string" where
  "skip_ws cs = dropWhile is_ws cs"

definition expect :: "char \<Rightarrow> string \<Rightarrow> string option" where
  "expect c cs = (case skip_ws cs of [] \<Rightarrow> None | d # r \<Rightarrow> if d = c then Some r else None)"

definition read_number :: "string \<Rightarrow> (jsval \<times> string) option" where
  "read_number cs =
     (let neg = (cs \<noteq> [] \<and> hd cs = CHR ''-'');
          body = (if neg then tl cs else cs);
          ds = takeWhile is_digit body;
          r = dropWhile is_digit body
      in if ds = [] \<or> (hd ds = CHR ''0'' \<and> length ds > 1) then None
         else if r \<noteq> [] \<and> (hd r = CHR ''.'' \<or> hd r = CHR ''e'' \<or> hd r = CHR ''E'') then None
         else Some (JNum (if neg then - int (nat_of_digits ds) else int (nat_of_digits ds)), r))"

definition unescape :: "char \<Rightarrow> char option" where
  "unescape e =
     (if e = CHR 0x22 \<or> e = CHR 0x5C \<or> e = CHR ''/'' then Some e
      else if e = CHR ''b'' then Some (CHR 0x08)
      else if e = CHR ''f'' then Some (CHR 0x0C)
      else if e = CHR ''n'' then Some (CHR 0x0A)
      else if e = CHR ''r'' then Some (CHR 0x0D)
      else if e = CHR ''t'' then Some (CHR 0x09)
      else None)"

fun read_string :: "string \<Rightarrow> (string \<times> string) option" where
  "read_string [] = None"
| "read_string [c] = (if c = CHR 0x22 then Some ([], []) else None)"
| "read_string (c # e # cs) =
     (if c = CHR 0x22 then Some ([], e # cs)
      else if c = CHR 0x5C then
        (case unescape e of
           None \<Rightarrow> None
         | Some ch \<Rightarrow> (case read_string cs of None \<Rightarrow> None | Some (s, r) \<Rightarrow> Some (ch # s, r)))
      else if (of_char c :: nat) < 32 then None
      else (case read_string (e # cs) of None \<Rightarrow> None | Some (s, r) \<Rightarrow> Some (c # s, r)))"

fun read_value :: "nat \<Rightarrow> string \<Rightarrow> (jsval \<times> string) option"
  and read_elems :: "nat \<Rightarrow> string \<Rightarrow> (jsval list \<times> string) option"
  and read_members :: "nat \<Rightarrow> string \<Rightarrow> ((string \<times> jsval) list \<times> string) option"
where
  "read_value 0 cs = None"
| "read_value (Suc n) cs =
     (case skip_ws cs of
        [] \<Rightarrow> None
      | c # r \<Rightarrow>
          if c = CHR ''{'' then
            (case expect (CHR ''}'') r of
               Some r' \<Rightarrow> Some (JObj [], r')
             | None \<Rightarrow>
                 (case read_members n r of
                    None \<Rightarrow> None
                  | Some (ms, r') \<Rightarrow>
                      Some (JObj (foldl (\<lambda>acc (k, v). AList.update k v acc) [] ms), r')))
          else if c = CHR ''['' then
            (case expect (CHR '']'') r of
               Some r' \<Rightarrow> Some (JArr [], r')
             | None \<Rightarrow>
                 (case read_elems n r of None \<Rightarrow> None | Some (vs, r') \<Rightarrow> Some (JArr vs, r')))
          else if c = CHR 0x22 then
            (case read_string r of None \<Rightarrow> None | Some (s, r') \<Rightarrow> Some (JStr s, r'))
          else if take 4 (c # r) = ''null'' then Some (JNull, drop 4 (c # r))
          else if take 4 (c # r) = ''true'' then Some (JBool True, drop 4 (c # r))
          else if take 5 (c # r) = ''false'' then Some (JBool False, drop 5 (c # r))
          else read_number (c # r))"
| "read_elems 0 cs = None"
| "read_elems (Suc n) cs =
     (case read_value n cs of
        None \<Rightarrow> None
      | Some (v, r) \<Rightarrow>
          (case expect (CHR '','') r of
             Some r' \<Rightarrow>
               (case read_elems n r' of None \<Rightarrow> None | Some (vs, r'') \<Rightarrow> Some (v # vs, r''))
           | None \<Rightarrow>
               (case expect (CHR '']'') r of Some r' \<Rightarrow> Some ([v], r') | None \<Rightarrow> None)))"
| "read_members 0 cs = None"
| "read_members (Suc n) cs =
     (case expect (CHR 0x22) cs of
        None \<Rightarrow> None
      | Some r0 \<Rightarrow>
          (case read_string r0 of
             None \<Rightarrow> None
           | Some (k, r1) \<Rightarrow>
               (case expect (CHR '':'') r1 of
                  None \<Rightarrow> None
                | Some r2 \<Rightarrow>
                    (case read_value n r2 of
                       None \<Rightarrow> None
                     | Some (v, r3) \<Rightarrow>
                         (case expect (CHR '','') r3 of
                            Some r4 \<Rightarrow>
                              (case read_members n r4 of
                                 None \<Rightarrow> None
                               | Some (ms, r5) \<Rightarrow> Some ((k, v) # ms, r5))
                          | None \<Rightarrow>
                              (case expect (CHR ''}'') r3 of
                                 Some r4 \<Rightarrow> Some ([(k, v)], r4)
                               | None \<Rightarrow> None))))))"

definition json_read :: "string \<Rightarrow> jsval option" where
  "json_read s =
     (case read_value (Suc (length s)) s of
        None \<Rightarrow> None
      | Some (v, r) \<Rightarrow> if skip_ws r = [] then Some v else None)"


definition json_write :: "jsval \<Rightarrow> string option" where
  "json_write v = (if v = JUndefined then None else Some (json_text v))"

text \<open>Days from 1970-01-01 to the given day of the proleptic Gregorian calendar.\<close>

definition days_from_civil :: "int \<Rightarrow> int \<Rightarrow> int \<Rightarrow> int" where
  "days_from_civil y m d =
     (let y' = (if m \<le> 2 then y - 1 else y);
          era = y' div 400;
          yoe = y' - era * 400;
          doy = (153 * (if m > 2 then m - 3 else m + 9) + 2) div 5 + d - 1;
          doe = yoe * 365 + yoe div 4 - yoe div 100 + doy
      in era * 146097 + doe - 719468)"

definition days_in_month :: "int \<Rightarrow> int \<Rightarrow> int" where
  "days_in_month y m =
     (if m = 2 then (if y mod 4 = 0 \<and> (y mod 100 \<noteq> 0 \<or> y mod 400 = 0) then 29 else 28)
      else if m = 4 \<or> m = 6 \<or> m = 9 \<or> m = 11 then 30 else 31)"

definition field :: "string \<Rightarrow> nat \<Rightarrow> nat \<Rightarrow> int option" where
  "field s i n =
     (let ds = take n (drop i s)
      in if length ds = n \<and> list_all is_digit ds then Some (int (nat_of_digits ds)) else None)"

text \<open>The time value of a string in the format \<^verbatim>\<open>YYYY-MM-DDTHH:mm:ssZ\<close> or
  \<^verbatim>\<open>YYYY-MM-DDTHH:mm:ss.sssZ\<close>.\<close>

definition iso_time :: "string \<Rightarrow> int option" where
  "iso_time s =
     (case (field s 0 4, field s 5 2, field s 8 2, field s 11 2, field s 14 2, field s 17 2) of
        (Some y, Some m, Some d, Some h, Some mi, Some sec) \<Rightarrow>
          (let ms = (if length s = 24 then field s 20 3 else Some 0);
               shape = (map (\<lambda>i. s ! i) [4, 7, 10, 13, 16] = ''--T::'' \<and>
                        (length s = 20 \<and> s ! 19 = CHR ''Z'' \<or>
                         length s = 24 \<and> s ! 19 = CHR ''.'' \<and> s ! 23 = CHR ''Z''))
           in case ms of
                None \<Rightarrow> None
              | Some f \<Rightarrow>
                  if shape \<and> 1 \<le> m \<and> m \<le> 12 \<and> 1 \<le> d \<and> d \<le> days_in_month y m \<and>
                     h \<le> 23 \<and> mi \<le> 59 \<and> sec \<le> 59
                  then Some ((((days_from_civil y m d * 24 + h) * 60 + mi) * 60 + sec) * 1000 + f)
                  else None)
      | _ \<Rightarrow> None)"

definition ref_platform :: platform where
  "ref_platform = \<lparr>json_stringify = json_write, json_parse = json_read, date_parse = iso_time\<rparr>"

section \<open>The required-field invariant and sample data\<close>

text \<open>The condition under which \<^verbatim>\<open>getUser\<close> accepts a parsed snapshot: the snapshot, its
  \<^verbatim>\<open>id\<close> and its \<^verbatim>\<open>email\<close> are truthy. A string is truthy when it is not empty, a
  number when it is not zero.\<close>

definition has_required_fields :: "jsval \<Rightarrow> bool" where
  "has_required_fields u =
     (truthy u \<and> (\<exists>i. get_prop u ''id'' = Inr i \<and> truthy i)
               \<and> (\<exists>m. get_prop u ''email'' = Inr m \<and> truthy m))"

text \<open>Sample snapshots and stores for the concrete runs.\<close>

definition alice :: jsval where
  "alice = JObj [(''id'', JNum 7), (''email'', JStr ''alice@example.com''), (''name'', JStr ''Alice'')]"

definition bob :: jsval where
  "bob = JObj [(''id'', JNum 8), (''email'', JStr ''bob.builder@example.com''), (''name'', JStr ''Bob'')]"

definition stored_session :: storage where
  "stored_session =
     \<lparr>items = [(tokenKey, ''tok-1''), (userKey, json_text alice),
               (expiryKey, ''2030-01-01T00:00:00Z'')],
      capacity = 200\<rparr>"

definition tight_store :: storage where
  "tight_store = stored_session\<lparr>capacity := 160\<rparr>"

definition full_store :: storage where
  "full_store = stored_session\<lparr>capacity := 157\<rparr>"


definition empty_store :: storage where
  "empty_store = \<lparr>items = [], capacity = 200\<rparr>"

definition undated_store :: storage where
  "undated_store =
     \<lparr>items = [(tokenKey, ''tok-1''), (userKey, json_text alice), (expiryKey, ''soon'')],
      capacity = 200\<rparr>"


definition me_ok :: http_response where
  "me_ok = Response 200 (Some (JObj [(''user'', alice)]))"

definition handshake :: storage where
  "handshake = \<lparr>items = [(stateKey, ''st-42''), (linkingKey, ''7'')], capacity = 200\<rparr>"

definition callback_params :: search_params where
  "callback_params = \<lparr>sp_code = Some ''c0de'', sp_state = Some ''st-42'', sp_error = None\<rparr>"

definition already_linked :: http_response where
  "already_linked = Response 200 (Some (JObj [(''github_linked'', JBool True)]))"

definition needs_linking :: http_response where
  "needs_linking =
     Response 200 (Some (JObj [(''github_linked'', JBool False),
                               (''github_user'', JObj [(''id'', JNum 99), (''username'', JStr ''octo'')]),
                               (''access_token'', JStr ''gho-1'')]))"

definition link_done :: http_response where
  "link_done = Response 200 (Some (JObj [(''id'', JNum 7)]))"

section \<open>Storage and session-store facts\<close>

lemma keys_distinct:
  "tokenKey \<noteq> userKey" "tokenKey \<noteq> expiryKey" "userKey \<noteq> expiryKey"
  "userKey \<noteq> tokenKey" "expiryKey \<noteq> tokenKey" "expiryKey \<noteq> userKey"
  by (simp_all add: tokenKey_def userKey_def expiryKey_def)

lemma getItem_setItem:
  "setItem st k v = Inr st' \<Longrightarrow> getItem st' k' = (if k' = k then Some v else getItem st k')"
  by (auto simp: setItem_def getItem_def Let_def update_conv' split: if_splits)

lemma capacity_setItem: "setItem st k v = Inr st' \<Longrightarrow> capacity st' = capacity st"
  by (auto simp: setItem_def Let_def split: if_splits)

lemma getItem_removeItem:
  "getItem (removeItem st k) k' = (if k' = k then None else getItem st k')"
  by (simp add: removeItem_def getItem_def delete_conv')

lemma getItem_clearSession:
  "getItem (clearSession ls) k =
     (if k = tokenKey \<or> k = userKey \<or> k = expiryKey then None else getItem ls k)"
  by (simp add: clearSession_def getItem_removeItem)

lemma getUser_Some_iff:
  "getUser env ls = Some u \<longleftrightarrow>
     (\<exists>s. getItem ls userKey = Some s \<and> s \<noteq> [] \<and> json_parse env s = Some u \<and> has_required_fields u)"
  by (auto simp: getUser_def has_required_fields_def split: option.splits sum.splits)

lemma isSessionValid_iff:
  "isSessionValid env ls now \<longleftrightarrow>
     (\<exists>t. getItem ls tokenKey = Some t \<and> t \<noteq> []) \<and>
     (\<exists>s u. getItem ls userKey = Some s \<and> s \<noteq> [] \<and> json_parse env s = Some u \<and> has_required_fields u) \<and>
     (\<exists>e d. getItem ls expiryKey = Some e \<and> e \<noteq> [] \<and> date_parse env e = Some d \<and> now < d)"
proof -
  have u: "getUser env ls \<noteq> None \<longleftrightarrow>
     (\<exists>s u. getItem ls userKey = Some s \<and> s \<noteq> [] \<and> json_parse env s = Some u \<and> has_required_fields u)"
    using getUser_Some_iff [of env ls] by auto
  show ?thesis
    unfolding u [symmetric]
    by (cases "getItem ls tokenKey"; cases "getItem ls expiryKey")
       (auto simp: isSessionValid_def getToken_def getExpiry_def Let_def split: option.splits)
qed

lemma setSession_falsy:
  "\<not> truthy tok \<or> \<not> truthy u \<or> \<not> truthy e \<Longrightarrow> setSession env ls tok u e = (False, ls)"
  by (simp add: setSession_def)

lemma setSession_True:
  assumes "setSession env ls tok u e = (True, ls')"
  shows "getItem ls' k =
           (if k = tokenKey then Some (to_string tok)
            else if k = userKey then Some (user_text env u)
            else if k = expiryKey then Some (to_string e)
            else getItem ls k)"
  using assms keys_distinct
  by (auto simp: setSession_def getItem_setItem split: if_splits sum.splits)

lemma setSession_False:
  assumes "setSession env ls tok u e = (False, ls')"
  shows "getItem ls' expiryKey = getItem ls expiryKey"
    and "getItem ls' userKey = getItem ls userKey \<or>
         getItem ls' userKey = Some (user_text env u) \<and> getItem ls' tokenKey = Some (to_string tok)"
    and "getItem ls' tokenKey = getItem ls tokenKey \<or> getItem ls' tokenKey = Some (to_string tok)"
    and "k \<noteq> tokenKey \<Longrightarrow> k \<noteq> userKey \<Longrightarrow> k \<noteq> expiryKey \<Longrightarrow> getItem ls' k = getItem ls k"
  using assms keys_distinct
  by (auto simp: setSession_def getItem_setItem split: if_splits sum.splits)

lemma getTimeUntilExpiry_absent:
  "getExpiry ls = None \<or> getExpiry ls = Some [] \<Longrightarrow> getTimeUntilExpiry env ls now = Some 0"
  by (auto simp: getTimeUntilExpiry_def)

lemma getTimeUntilExpiry_parsed:
  "getExpiry ls = Some e \<Longrightarrow> e \<noteq> [] \<Longrightarrow> date_parse env e = Some d \<Longrightarrow>
   getTimeUntilExpiry env ls now = Some (max 0 ((d - now) div 60000))"
  by (simp add: getTimeUntilExpiry_def)

lemma getTimeUntilExpiry_past:
  "getExpiry ls = Some e \<Longrightarrow> e \<noteq> [] \<Longrightarrow> date_parse env e = Some d \<Longrightarrow> d \<le> now \<Longrightarrow>
   getTimeUntilExpiry env ls now = Some 0"
  by (simp add: getTimeUntilExpiry_def)

lemma getTimeUntilExpiry_NaN_iff:
  "getTimeUntilExpiry env ls now = None \<longleftrightarrow>
     (\<exists>e. getExpiry ls = Some e \<and> e \<noteq> [] \<and> date_parse env e = None)"
  by (auto simp: getTimeUntilExpiry_def split: option.splits)

lemma isSessionValid_has_session:
  "isSessionValid env ls now \<Longrightarrow> truthy_item (getToken ls) \<and> getUser env ls \<noteq> None"
  by (auto simp: isSessionValid_def Let_def split: if_splits)

lemma isSessionValid_later:
  "isSessionValid env ls now1 \<Longrightarrow> getExpiry ls = Some e \<Longrightarrow> date_parse env e = Some d \<Longrightarrow>
   now2 < d \<Longrightarrow> isSessionValid env ls now2"
  by (auto simp: isSessionValid_iff getExpiry_def)

lemma check_unauthorized:
  "isSessionValid env ls now1 \<Longrightarrow>
   checkAndRefreshSession env ls now1 (Some (Response 401 b)) now2 rf
     = (False, clearSession ls, [GetAuthMe (getAuthHeaders ls)])"
  using isSessionValid_has_session [of env ls now1]
  by (simp add: checkAndRefreshSession_def ok_def Let_def)

lemma check_soft_failure:
  "isSessionValid env ls now1 \<Longrightarrow> \<not> ok r \<Longrightarrow> status r \<noteq> 401 \<Longrightarrow>
   checkAndRefreshSession env ls now1 (Some r) now2 rf
     = (isSessionValid env ls now2, ls, [GetAuthMe (getAuthHeaders ls)])"
  using isSessionValid_has_session [of env ls now1]
  by (simp add: checkAndRefreshSession_def Let_def)

lemma check_network_failure:
  "isSessionValid env ls now1 \<Longrightarrow>
   checkAndRefreshSession env ls now1 None now2 rf
     = (isSessionValid env ls now2, ls, [GetAuthMe (getAuthHeaders ls)])"
  using isSessionValid_has_session [of env ls now1]
  by (simp add: checkAndRefreshSession_def Let_def)

lemma cleared_store:
  "getToken (clearSession ls) = None" "getUser env (clearSession ls) = None"
  "getExpiry (clearSession ls) = None" "\<not> isSessionValid env (clearSession ls) t"
  "\<not> isLoggedIn env (clearSession ls) t"
  by (simp_all add: getToken_def getUser_def getExpiry_def getItem_clearSession
        isSessionValid_def isLoggedIn_def Let_def)

lemma refresh_if_close_requests:
  "getExpiry ls = Some e \<Longrightarrow> e \<noteq> [] \<Longrightarrow> date_parse env e = Some d \<Longrightarrow>
   snd (refresh_if_close env ls now refresh)
     = (if d - now < 7200000 then [PostAuthRefresh (getAuthHeaders ls)] else [])"
  by (simp add: refresh_if_close_def Let_def)

lemma check_requests:
  assumes "isSessionValid env ls now1" and "ok response"
    and "getExpiry ls = Some e" and "date_parse env e = Some d"
  shows "snd (snd (checkAndRefreshSession env ls now1 (Some response) now2 refresh)) =
           GetAuthMe (getAuthHeaders ls) #
           (case json_body response of
              None \<Rightarrow> []
            | Some data \<Rightarrow>
                (case get_prop data ''user'' of
                   Inl x \<Rightarrow> []
                 | Inr user \<Rightarrow>
                     (case updateUser env ls user of
                        Inl x \<Rightarrow> []
                      | Inr ls1 \<Rightarrow>
                          if d - now2 < 7200000 then [PostAuthRefresh (getAuthHeaders ls1)]
                          else [])))"
proof -
  have ne: "e \<noteq> []"
    using assms(1,3) by (auto simp: isSessionValid_iff getExpiry_def)
  have keep: "getExpiry ls1 = Some e" if "updateUser env ls user = Inr ls1" for user ls1
    using getItem_setItem [OF that [unfolded updateUser_def], of expiryKey] keys_distinct assms(3)
    by (simp add: getExpiry_def)
  show ?thesis
    using isSessionValid_has_session [OF assms(1)] assms(1,2)
    by (auto simp: checkAndRefreshSession_def Let_def split_beta
          refresh_if_close_requests [OF keep ne assms(4)]
          split: option.splits sum.splits)
qed

lemma getItem_clean_up:
  "getItem (clean_up ss) k = (if k = stateKey \<or> k = linkingKey then None else getItem ss k)"
  by (simp add: clean_up_def getItem_removeItem)

lemma getItem_handleRetry:
  "getItem (handleRetry ss) k = (if k = stateKey \<or> k = linkingKey then None else getItem ss k)"
  by (simp add: handleRetry_def getItem_removeItem)

lemma linkGitHubAccount_outcome:
  assumes "linkGitHubAccount ls c ss userId gu tok link = (c', ss', reqs)"
  shows "flow c' = Success \<and> ss' = clean_up ss \<or> flow c' = Failed \<and> ss' = ss"
  using assms
  by (auto simp: linkGitHubAccount_def Let_def split: sum.splits option.splits if_splits)

lemma handleGitHubCallback_outcome:
  assumes "handleGitHubCallback ls sp c ss cb link = (c', ss', reqs)"
  shows "flow c' = Success \<and> ss' = clean_up ss \<or> flow c' = Failed \<and> ss' = ss"
  using assms
  by (auto simp: handleGitHubCallback_def Let_def split: sum.splits option.splits if_splits prod.splits
      dest: linkGitHubAccount_outcome)

lemma handleGitHubCallback_rejects:
  assumes "\<not> truthy_item (getItem ss stateKey) \<or> getItem ss stateKey \<noteq> sp_state sp"
  shows "\<exists>c'. handleGitHubCallback ls sp c ss cb link = (c', ss, []) \<and> flow c' = Failed"
  using assms by (auto simp: handleGitHubCallback_def Let_def)



lemma has_required_fields_truthy: "has_required_fields u \<Longrightarrow> truthy u"
  by (simp add: has_required_fields_def)

lemma setSession_fits:
  assumes "truthy tok" "truthy u" "truthy e"
    and "session_fits ls (to_string tok) (user_text env u) (to_string e)"
  shows "fst (setSession env ls tok u e) = True"
  using assms by (simp add: setSession_def setItem_def session_fits_def Let_def)

lemma setSession_not_fits:
  assumes "\<not> session_fits ls (to_string tok) (user_text env u) (to_string e)"
  shows "fst (setSession env ls tok u e) = False"
  using assms
  by (auto simp: setSession_def setItem_def session_fits_def Let_def split: if_splits)

lemma usage_update_le: "usage (AList.update k v al) \<le> usage al + (length k + length v)"
  by (induction al) (auto simp: usage_def)

lemma room_session_fits:
  assumes "usage (items ls) + (length tokenKey + length t) + (length userKey + length s)
             + (length expiryKey + length e) \<le> capacity ls"
  shows "session_fits ls t s e"
proof -
  let ?i1 = "AList.update tokenKey t (items ls)"
  let ?i2 = "AList.update userKey s ?i1"
  let ?i3 = "AList.update expiryKey e ?i2"
  have 1: "usage ?i1 \<le> usage (items ls) + (length tokenKey + length t)"
    by (rule usage_update_le)
  have 2: "usage ?i2 \<le> usage ?i1 + (length userKey + length s)"
    by (rule usage_update_le)
  have 3: "usage ?i3 \<le> usage ?i2 + (length expiryKey + length e)"
    by (rule usage_update_le)
  show ?thesis
    unfolding session_fits_def Let_def using 1 2 3 assms by linarith
qed

section \<open>Claims about reconciling with the server\<close>

text \<open>
  Claim C1. For a stored session that is valid at the first clock reading: when the request
  to \<^verbatim>\<open>/auth/me\<close> is answered with status 401, \<^verbatim>\<open>checkAndRefreshSession\<close> clears the
  store (token, user and expiry are absent, \<^verbatim>\<open>isLoggedIn\<close> is false) and returns
  \<^verbatim>\<open>false\<close>; when it is answered with any other status outside 200..299, or not answered
  at all, the store is left as it is and the result is the local verdict
  \<^verbatim>\<open>isSessionValid()\<close>, computed at the later clock reading, which is \<^verbatim>\<open>true\<close> as long
  as that reading is before the stored expiry.
\<close>

theorem reconcile_failure_split:
  assumes "isSessionValid env ls now1"
  shows "(\<forall>b. checkAndRefreshSession env ls now1 (Some (Response 401 b)) now2 rf
              = (False, clearSession ls, [GetAuthMe (getAuthHeaders ls)])) \<and>
         getToken (clearSession ls) = None \<and> getUser env (clearSession ls) = None \<and>
         getExpiry (clearSession ls) = None \<and> (\<forall>t. \<not> isLoggedIn env (clearSession ls) t) \<and>
         (\<forall>r. \<not> ok r \<and> status r \<noteq> 401 \<longrightarrow>
              checkAndRefreshSession env ls now1 (Some r) now2 rf
                = (isSessionValid env ls now2, ls, [GetAuthMe (getAuthHeaders ls)])) \<and>
         checkAndRefreshSession env ls now1 None now2 rf
           = (isSessionValid env ls now2, ls, [GetAuthMe (getAuthHeaders ls)]) \<and>
         (\<forall>e d. getExpiry ls = Some e \<and> date_parse env e = Some d \<and> now2 < d \<longrightarrow>
                isSessionValid env ls now2)"
proof (intro conjI allI impI)
  fix e d assume "getExpiry ls = Some e \<and> date_parse env e = Some d \<and> now2 < d"
  then show "isSessionValid env ls now2"
    using isSessionValid_later [OF assms] by blast
qed (simp_all add: check_unauthorized [OF assms] check_soft_failure [OF assms]
       check_network_failure [OF assms] cleared_store)

theorem reconcile_failure_split_witness:
  "isSessionValid ref_platform stored_session 1893450000000 \<and>
   checkAndRefreshSession ref_platform stored_session 1893450000000
       (Some (Response 401 None)) 1893450000500 None
     = (False, clearSession stored_session, [GetAuthMe (getAuthHeaders stored_session)]) \<and>
   getToken (clearSession stored_session) = None \<and>
   \<not> ok (Response 503 None) \<and> status (Response 503 None) \<noteq> 401 \<and>
   checkAndRefreshSession ref_platform stored_session 1893450000000
       (Some (Response 503 None)) 1893450000500 None
     = (True, stored_session, [GetAuthMe (getAuthHeaders stored_session)]) \<and>
   checkAndRefreshSession ref_platform stored_session 1893450000000 None 1893450000500 None
     = (True, stored_session, [GetAuthMe (getAuthHeaders stored_session)])"
proof -
  have h: "isSessionValid ref_platform stored_session 1893450000000"
    by code_simp
  have v: "isSessionValid ref_platform stored_session 1893450000500 = True"
    by code_simp
  have r: "\<not> ok (Response 503 None) \<and> status (Response 503 None) \<noteq> 401"
    by (simp add: ok_def)
  note T = reconcile_failure_split [OF h, of 1893450000500 None]
  have a: "checkAndRefreshSession ref_platform stored_session 1893450000000
       (Some (Response 401 None)) 1893450000500 None
     = (False, clearSession stored_session, [GetAuthMe (getAuthHeaders stored_session)])"
    using T by blast
  have b: "getToken (clearSession stored_session) = None"
    using T by blast
  have c: "checkAndRefreshSession ref_platform stored_session 1893450000000
       (Some (Response 503 None)) 1893450000500 None
     = (True, stored_session, [GetAuthMe (getAuthHeaders stored_session)])"
    using T r unfolding v by blast
  have d: "checkAndRefreshSession ref_platform stored_session 1893450000000 None 1893450000500 None
     = (True, stored_session, [GetAuthMe (getAuthHeaders stored_session)])"
    using T unfolding v by blast
  show ?thesis using h a b c d r by blast
qed

text \<open>
  Claim C2, as amended. For a stored valid session and a response of \<^verbatim>\<open>/auth/me\<close> with a
  status in 200..299, a refresh request is sent if and only if the body is JSON, the user
  snapshot of the body has been written, and the stored expiry is less than two hours
  (\<open>2 * 60 * 60 * 1000\<close> milliseconds) after the clock reading. The threshold of
  \<^verbatim>\<open>checkAndRefreshSession\<close> is its own; \<^verbatim>\<open>isSessionExpiringSoon\<close> (30 minutes) is not
  consulted.
\<close>

theorem refresh_threshold:
  assumes "isSessionValid env ls now1" and "ok response"
    and "getExpiry ls = Some e" and "date_parse env e = Some d"
  shows "(\<exists>h. PostAuthRefresh h \<in>
               set (snd (snd (checkAndRefreshSession env ls now1 (Some response) now2 refresh))))
         \<longleftrightarrow>
         (\<exists>data user ls1. json_body response = Some data \<and> get_prop data ''user'' = Inr user \<and>
                          updateUser env ls user = Inr ls1) \<and>
         d - now2 < 2 * 60 * 60 * 1000"
proof (cases "json_body response")
  case None
  then show ?thesis unfolding check_requests [OF assms] by simp
next
  case (Some data)
  show ?thesis
  proof (cases "get_prop data ''user''")
    case (Inl x)
    with Some show ?thesis unfolding check_requests [OF assms] by simp
  next
    case (Inr user)
    with Some show ?thesis unfolding check_requests [OF assms]
      by (cases "updateUser env ls user") simp_all
  qed
qed

text \<open>
  The claim as stated fails: 90 minutes before the expiry \<^verbatim>\<open>getTimeUntilExpiry\<close> is 90,
  the session is not expiring soon, and the refresh request is sent all the same.
\<close>

theorem refresh_at_ninety_minutes_counterexample:
  "getTimeUntilExpiry ref_platform stored_session 1893450600000 = Some 90 \<and>
   \<not> isSessionExpiringSoon ref_platform stored_session 1893450600000 \<and>
   checkAndRefreshSession ref_platform stored_session 1893450600000 (Some me_ok) 1893450600000 None
     = (True, stored_session,
        [GetAuthMe (getAuthHeaders stored_session), PostAuthRefresh (getAuthHeaders stored_session)])"
proof (intro conjI)
  show "getTimeUntilExpiry ref_platform stored_session 1893450600000 = Some 90"
    by code_simp
  show "\<not> isSessionExpiringSoon ref_platform stored_session 1893450600000"
    by code_simp
  show "checkAndRefreshSession ref_platform stored_session 1893450600000 (Some me_ok) 1893450600000 None
     = (True, stored_session,
        [GetAuthMe (getAuthHeaders stored_session), PostAuthRefresh (getAuthHeaders stored_session)])"
    by code_simp
qed

theorem refresh_threshold_witness:
  "isSessionValid ref_platform stored_session 1893447000000 \<and> ok me_ok \<and>
   getExpiry stored_session = Some ''2030-01-01T00:00:00Z'' \<and>
   date_parse ref_platform ''2030-01-01T00:00:00Z'' = Some 1893456000000 \<and>
   (\<exists>data user ls1. json_body me_ok = Some data \<and> get_prop data ''user'' = Inr user \<and>
                    updateUser ref_platform stored_session user = Inr ls1) \<and>
   (\<exists>h. PostAuthRefresh h \<in>
      set (snd (snd (checkAndRefreshSession ref_platform stored_session 1893447000000
                       (Some me_ok) 1893450600000 None)))) \<and>
   \<not> (\<exists>h. PostAuthRefresh h \<in>
      set (snd (snd (checkAndRefreshSession ref_platform stored_session 1893447000000
                       (Some me_ok) 1893447000000 None))))"
proof -
  have h1: "isSessionValid ref_platform stored_session 1893447000000" by code_simp
  have h2: "ok me_ok" by (simp add: ok_def me_ok_def)
  have h3: "getExpiry stored_session = Some ''2030-01-01T00:00:00Z''" by code_simp
  have h4: "date_parse ref_platform ''2030-01-01T00:00:00Z'' = Some 1893456000000" by code_simp
  have u: "updateUser ref_platform stored_session alice = Inr stored_session" by code_simp
  have b: "\<exists>data user ls1. json_body me_ok = Some data \<and> get_prop data ''user'' = Inr user \<and>
                    updateUser ref_platform stored_session user = Inr ls1"
    using u by (simp add: me_ok_def)
  have near: "(1893456000000::int) - 1893450600000 < 2 * 60 * 60 * 1000" by simp
  have far: "\<not> (1893456000000::int) - 1893447000000 < 2 * 60 * 60 * 1000" by simp
  show ?thesis
    using refresh_threshold [OF h1 h2 h3 h4, of 1893450600000 None]
      refresh_threshold [OF h1 h2 h3 h4, of 1893447000000 None] h1 h2 h3 h4 b near far
    by blast
qed

section \<open>Claims about the GitHub callback\<close>

text \<open>
  Claim C3, as amended. Every run of \<^verbatim>\<open>handleGitHubCallback\<close> ends in the success or in
  the error state. When it ends in success, both keys of the handshake record have been
  removed from \<^verbatim>\<open>sessionStorage\<close>. When it ends in error, \<^verbatim>\<open>sessionStorage\<close> is exactly
  as before the run: the record stays until \<^verbatim>\<open>handleRetry\<close> removes it.
\<close>

theorem handshake_record_lifetime:
  "(flow (fst (handleGitHubCallback ls sp c ss cb link)) = Success \<or>
    flow (fst (handleGitHubCallback ls sp c ss cb link)) = Failed) \<and>
   (flow (fst (handleGitHubCallback ls sp c ss cb link)) = Success \<longrightarrow>
      getItem (fst (snd (handleGitHubCallback ls sp c ss cb link))) stateKey = None \<and>
      getItem (fst (snd (handleGitHubCallback ls sp c ss cb link))) linkingKey = None) \<and>
   (flow (fst (handleGitHubCallback ls sp c ss cb link)) = Failed \<longrightarrow>
      fst (snd (handleGitHubCallback ls sp c ss cb link)) = ss) \<and>
   getItem (handleRetry ss) stateKey = None \<and> getItem (handleRetry ss) linkingKey = None"
proof -
  obtain c' ss' reqs where r: "handleGitHubCallback ls sp c ss cb link = (c', ss', reqs)"
    by (cases "handleGitHubCallback ls sp c ss cb link") auto
  show ?thesis
    using handleGitHubCallback_outcome [OF r]
    by (auto simp: r getItem_clean_up getItem_handleRetry)
qed

text \<open>
  The claim as stated fails: a run whose exchange request gets no response ends in error
  with the handshake record still stored, and a later run with the same parameters passes the
  state check on that same record and ends in success.
\<close>

theorem handshake_reused_counterexample:
  "flow (fst (handleGitHubCallback stored_session callback_params initial_component handshake
                None None)) = Failed \<and>
   fst (snd (handleGitHubCallback stored_session callback_params initial_component handshake
                None None)) = handshake \<and>
   getItem handshake stateKey = Some ''st-42'' \<and>
   getItem handshake linkingKey = Some ''7'' \<and>
   flow (fst (handleGitHubCallback stored_session callback_params initial_component
                (fst (snd (handleGitHubCallback stored_session callback_params initial_component
                             handshake None None)))
                (Some already_linked) None)) = Success"
proof (intro conjI)
  show "flow (fst (handleGitHubCallback stored_session callback_params initial_component handshake
                None None)) = Failed"
    by code_simp
  show "fst (snd (handleGitHubCallback stored_session callback_params initial_component handshake
                None None)) = handshake"
    by code_simp
  show "getItem handshake stateKey = Some ''st-42''"
    by code_simp
  show "getItem handshake linkingKey = Some ''7''"
    by code_simp
  show "flow (fst (handleGitHubCallback stored_session callback_params initial_component
                (fst (snd (handleGitHubCallback stored_session callback_params initial_component
                             handshake None None)))
                (Some already_linked) None)) = Success"
    by code_simp
qed

theorem handshake_record_lifetime_witness:
  "flow (fst (handleGitHubCallback stored_session (callback_params\<lparr>sp_error := Some ''access_denied''\<rparr>)
                initial_component handshake (Some needs_linking) (Some link_done))) = Failed \<and>
   fst (snd (handleGitHubCallback stored_session (callback_params\<lparr>sp_error := Some ''access_denied''\<rparr>)
                initial_component handshake (Some needs_linking) (Some link_done))) = handshake \<and>
   flow (fst (handleGitHubCallback stored_session callback_params initial_component handshake
                (Some needs_linking) (Some link_done))) = Success \<and>
   getItem (fst (snd (handleGitHubCallback stored_session callback_params initial_component handshake
                (Some needs_linking) (Some link_done)))) stateKey = None \<and>
   getItem (fst (snd (handleGitHubCallback stored_session callback_params initial_component handshake
                (Some needs_linking) (Some link_done)))) linkingKey = None \<and>
   getItem (handleRetry handshake) stateKey = None"
proof -
  have a: "flow (fst (handleGitHubCallback stored_session
                (callback_params\<lparr>sp_error := Some ''access_denied''\<rparr>)
                initial_component handshake (Some needs_linking) (Some link_done))) = Failed"
    by code_simp
  have b: "flow (fst (handleGitHubCallback stored_session callback_params initial_component handshake
                (Some needs_linking) (Some link_done))) = Success"
    by code_simp
  show ?thesis
    using handshake_record_lifetime [of stored_session
            "callback_params\<lparr>sp_error := Some ''access_denied''\<rparr>" initial_component handshake
            "Some needs_linking" "Some link_done"]
      handshake_record_lifetime [of stored_session callback_params initial_component handshake
            "Some needs_linking" "Some link_done"] a b
    by blast
qed

text \<open>
  Claim C4. When no handshake state is stored, or the stored state differs from the
  \<^verbatim>\<open>state\<close> parameter of the callback URL, \<^verbatim>\<open>handleGitHubCallback\<close> ends in the error
  state, sends no request at all (in particular none to the link endpoint) and leaves
  \<^verbatim>\<open>sessionStorage\<close> as it is.
\<close>

theorem state_mismatch_rejected:
  assumes "getItem ss stateKey = None \<or> getItem ss stateKey \<noteq> sp_state sp"
  shows "flow (fst (handleGitHubCallback ls sp c ss cb link)) = Failed \<and>
         snd (snd (handleGitHubCallback ls sp c ss cb link)) = [] \<and>
         (\<forall>h b. PostGithubLink h b \<notin> set (snd (snd (handleGitHubCallback ls sp c ss cb link)))) \<and>
         fst (snd (handleGitHubCallback ls sp c ss cb link)) = ss"
proof -
  have "\<not> truthy_item (getItem ss stateKey) \<or> getItem ss stateKey \<noteq> sp_state sp"
    using assms by auto
  from handleGitHubCallback_rejects [OF this, of ls c cb link]
  show ?thesis by auto
qed

theorem state_mismatch_rejected_witness:
  "getItem handshake stateKey \<noteq> sp_state (callback_params\<lparr>sp_state := Some ''forged''\<rparr>) \<and>
   flow (fst (handleGitHubCallback stored_session (callback_params\<lparr>sp_state := Some ''forged''\<rparr>)
                initial_component handshake (Some needs_linking) (Some link_done))) = Failed \<and>
   snd (snd (handleGitHubCallback stored_session (callback_params\<lparr>sp_state := Some ''forged''\<rparr>)
                initial_component handshake (Some needs_linking) (Some link_done))) = [] \<and>
   getItem empty_store stateKey = None \<and>
   flow (fst (handleGitHubCallback stored_session callback_params
                initial_component empty_store (Some needs_linking) (Some link_done))) = Failed \<and>
   snd (snd (handleGitHubCallback stored_session callback_params
                initial_component empty_store (Some needs_linking) (Some link_done))) = []"
proof -
  have a: "getItem handshake stateKey \<noteq> sp_state (callback_params\<lparr>sp_state := Some ''forged''\<rparr>)"
    by code_simp
  have b: "getItem empty_store stateKey = None"
    by code_simp
  show ?thesis
    using state_mismatch_rejected [OF disjI2 [OF a], where ls = stored_session
            and c = initial_component and cb = "Some needs_linking" and link = "Some link_done"]
      state_mismatch_rejected [OF disjI1 [OF b], where sp = callback_params and ls = stored_session
            and c = initial_component and cb = "Some needs_linking" and link = "Some link_done"] a b
    by blast
qed

section \<open>Claims about the session store\<close>

text \<open>
  Claim C5, as amended. A call of \<^verbatim>\<open>setSession\<close> with a falsy argument returns
  \<^verbatim>\<open>false\<close> and leaves the store as it is. A call that returns \<^verbatim>\<open>true\<close> has written
  all three fields and no other key. A call that returns \<^verbatim>\<open>false\<close> never changes the
  expiry, and has changed nothing, or the token alone, or the token and the user: the writes
  made before the rejected one are not undone.
\<close>

theorem setSession_contract:
  "(\<not> truthy tok \<or> \<not> truthy u \<or> \<not> truthy e \<longrightarrow> setSession env ls tok u e = (False, ls)) \<and>
   (\<forall>ls'. setSession env ls tok u e = (True, ls') \<longrightarrow>
      getToken ls' = Some (to_string tok) \<and>
      getItem ls' userKey = Some (user_text env u) \<and>
      getExpiry ls' = Some (to_string e) \<and>
      (\<forall>k. k \<noteq> tokenKey \<and> k \<noteq> userKey \<and> k \<noteq> expiryKey \<longrightarrow> getItem ls' k = getItem ls k)) \<and>
   (\<forall>ls'. setSession env ls tok u e = (False, ls') \<longrightarrow>
      getExpiry ls' = getExpiry ls \<and>
      (getItem ls' userKey = getItem ls userKey \<or>
       getItem ls' userKey = Some (user_text env u) \<and> getToken ls' = Some (to_string tok)) \<and>
      (getToken ls' = getToken ls \<or> getToken ls' = Some (to_string tok)) \<and>
      (\<forall>k. k \<noteq> tokenKey \<and> k \<noteq> userKey \<and> k \<noteq> expiryKey \<longrightarrow> getItem ls' k = getItem ls k))"
proof (intro conjI allI impI)
  fix ls' assume t: "setSession env ls tok u e = (True, ls')"
  show "getToken ls' = Some (to_string tok)"
    using setSession_True [OF t, of tokenKey] by (simp add: getToken_def)
  show "getItem ls' userKey = Some (user_text env u)"
    using setSession_True [OF t, of userKey] keys_distinct by simp
  show "getExpiry ls' = Some (to_string e)"
    using setSession_True [OF t, of expiryKey] keys_distinct by (simp add: getExpiry_def)
  fix k assume "k \<noteq> tokenKey \<and> k \<noteq> userKey \<and> k \<noteq> expiryKey"
  then show "getItem ls' k = getItem ls k"
    using setSession_True [OF t, of k] by simp
next
  fix ls' assume f: "setSession env ls tok u e = (False, ls')"
  show "getExpiry ls' = getExpiry ls"
    using setSession_False(1) [OF f] by (simp add: getExpiry_def)
  show "getItem ls' userKey = getItem ls userKey \<or>
       getItem ls' userKey = Some (user_text env u) \<and> getToken ls' = Some (to_string tok)"
    using setSession_False(2) [OF f] by (simp add: getToken_def)
  show "getToken ls' = getToken ls \<or> getToken ls' = Some (to_string tok)"
    using setSession_False(3) [OF f] by (simp add: getToken_def)
  fix k assume "k \<noteq> tokenKey \<and> k \<noteq> userKey \<and> k \<noteq> expiryKey"
  then show "getItem ls' k = getItem ls k"
    using setSession_False(4) [OF f, of k] by simp
qed (simp add: setSession_falsy)

text \<open>The claim as stated fails: in a store with room for the new token but not for the
  new snapshot, \<^verbatim>\<open>setSession\<close> returns \<^verbatim>\<open>false\<close> and readers see the new token next to
  the old user and the old expiry.\<close>

theorem setSession_partial_write_counterexample:
  "fst (setSession ref_platform tight_store (JStr ''tok-2'') bob (JStr ''2031-01-01T00:00:00Z'')) = False \<and>
   getToken tight_store = Some ''tok-1'' \<and>
   getToken (snd (setSession ref_platform tight_store (JStr ''tok-2'') bob (JStr ''2031-01-01T00:00:00Z''))) = Some ''tok-2'' \<and>
   getUser ref_platform (snd (setSession ref_platform tight_store (JStr ''tok-2'') bob (JStr ''2031-01-01T00:00:00Z''))) = Some alice \<and>
   getExpiry (snd (setSession ref_platform tight_store (JStr ''tok-2'') bob (JStr ''2031-01-01T00:00:00Z''))) = Some ''2030-01-01T00:00:00Z''"
proof (intro conjI)
  show "fst (setSession ref_platform tight_store (JStr ''tok-2'') bob (JStr ''2031-01-01T00:00:00Z'')) = False"
    by code_simp
  show "getToken tight_store = Some ''tok-1''"
    by code_simp
  show "getToken (snd (setSession ref_platform tight_store (JStr ''tok-2'') bob (JStr ''2031-01-01T00:00:00Z''))) = Some ''tok-2''"
    by code_simp
  show "getUser ref_platform (snd (setSession ref_platform tight_store (JStr ''tok-2'') bob (JStr ''2031-01-01T00:00:00Z''))) = Some alice"
    by code_simp
  show "getExpiry (snd (setSession ref_platform tight_store (JStr ''tok-2'') bob (JStr ''2031-01-01T00:00:00Z''))) = Some ''2030-01-01T00:00:00Z''"
    by code_simp
qed

theorem setSession_contract_witness:
  "setSession ref_platform stored_session (JStr []) bob (JStr ''2031-01-01T00:00:00Z'') = (False, stored_session) \<and>
   setSession ref_platform empty_store (JStr ''tok-1'') alice (JStr ''2030-01-01T00:00:00Z'') = (True, stored_session) \<and>
   getToken stored_session = Some ''tok-1'' \<and>
   getItem stored_session userKey = Some (user_text ref_platform alice) \<and>
   getExpiry stored_session = Some ''2030-01-01T00:00:00Z'' \<and>
   setSession ref_platform tight_store (JStr ''tok-3'') bob (JStr ''2032-01-01T00:00:00Z'')
     = (False, tight_store\<lparr>items := AList.update tokenKey ''tok-3'' (items tight_store)\<rparr>) \<and>
   getExpiry (tight_store\<lparr>items := AList.update tokenKey ''tok-3'' (items tight_store)\<rparr>) = getExpiry tight_store"
proof -
  have a: "\<not> truthy (JStr [])" by simp
  have b: "setSession ref_platform empty_store (JStr ''tok-1'') alice (JStr ''2030-01-01T00:00:00Z'') = (True, stored_session)"
    by code_simp
  have c: "setSession ref_platform tight_store (JStr ''tok-3'') bob (JStr ''2032-01-01T00:00:00Z'')
     = (False, tight_store\<lparr>items := AList.update tokenKey ''tok-3'' (items tight_store)\<rparr>)"
    by code_simp
  have s: "to_string (JStr ''tok-1'') = ''tok-1''" "to_string (JStr ''2030-01-01T00:00:00Z'') = ''2030-01-01T00:00:00Z''"
    by simp_all
  have r1: "setSession ref_platform stored_session (JStr []) bob (JStr ''2031-01-01T00:00:00Z'') = (False, stored_session)"
    using setSession_contract [of "JStr []" bob "JStr ''2031-01-01T00:00:00Z''" ref_platform stored_session] a
    by blast
  have r2: "getToken stored_session = Some ''tok-1'' \<and>
            getItem stored_session userKey = Some (user_text ref_platform alice) \<and>
            getExpiry stored_session = Some ''2030-01-01T00:00:00Z''"
    using setSession_contract [of "JStr ''tok-1''" alice "JStr ''2030-01-01T00:00:00Z''" ref_platform empty_store] b
    unfolding s by blast
  have r3: "getExpiry (tight_store\<lparr>items := AList.update tokenKey ''tok-3'' (items tight_store)\<rparr>) = getExpiry tight_store"
    using setSession_contract [of "JStr ''tok-3''" bob "JStr ''2032-01-01T00:00:00Z''" ref_platform tight_store] c
    by blast
  show ?thesis using r1 r2 r3 b c by blast
qed

text \<open>
  Claim C6. \<^verbatim>\<open>isSessionValid\<close> is a total function to the booleans, and it is true exactly
  when a non-empty token is stored, the stored user text is non-empty and parses to a snapshot
  with the required fields, and the stored expiry is non-empty and parses to a time strictly
  after the clock reading. Any missing or malformed field makes it false.
\<close>

theorem isSessionValid_characterisation:
  "isSessionValid env ls now \<longleftrightarrow>
     (\<exists>t. getToken ls = Some t \<and> t \<noteq> []) \<and>
     (\<exists>s u. getItem ls userKey = Some s \<and> s \<noteq> [] \<and> json_parse env s = Some u \<and>
            has_required_fields u) \<and>
     (\<exists>e d. getExpiry ls = Some e \<and> e \<noteq> [] \<and> date_parse env e = Some d \<and> now < d)"
  unfolding getToken_def getExpiry_def by (rule isSessionValid_iff)

theorem isSessionValid_characterisation_witness:
  "isSessionValid ref_platform stored_session 1893450000000 \<and>
   (\<exists>t. getToken stored_session = Some t \<and> t \<noteq> []) \<and>
   (\<exists>s u. getItem stored_session userKey = Some s \<and> s \<noteq> [] \<and>
          json_parse ref_platform s = Some u \<and> has_required_fields u) \<and>
   (\<exists>e d. getExpiry stored_session = Some e \<and> e \<noteq> [] \<and>
          date_parse ref_platform e = Some d \<and> 1893450000000 < d) \<and>
   \<not> isSessionValid ref_platform undated_store 1893450000000"
proof -
  have a: "isSessionValid ref_platform stored_session 1893450000000"
    by code_simp
  have b: "getExpiry undated_store = Some ''soon''"
    by code_simp
  have c: "date_parse ref_platform ''soon'' = None"
    by code_simp
  have d: "\<not> isSessionValid ref_platform undated_store 1893450000000"
    using isSessionValid_characterisation [of ref_platform undated_store 1893450000000] b c
    by auto
  show ?thesis
    using isSessionValid_characterisation [of ref_platform stored_session 1893450000000] a d
    by blast
qed

text \<open>
  Claim C7, at the input where the code departs from it. After
  \<^verbatim>\<open>setSession('tok-1', alice, 'soon')\<close>, which returns \<^verbatim>\<open>true\<close>, the stored expiry does not
  parse and \<^verbatim>\<open>getTimeUntilExpiry\<close> is \<^verbatim>\<open>NaN\<close>, not a non-negative integer. (For an absent
  expiry and for an expiry that parses the result is a non-negative integer, see
  \<open>getTimeUntilExpiry_absent\<close> and \<open>getTimeUntilExpiry_parsed\<close>.)
\<close>

theorem getTimeUntilExpiry_unparseable:
  "setSession ref_platform empty_store (JStr ''tok-1'') alice (JStr ''soon'') = (True, undated_store) \<and>
   getTimeUntilExpiry ref_platform undated_store now = None \<and>
   \<not> isSessionExpiringSoon ref_platform undated_store now"
proof -
  have a: "setSession ref_platform empty_store (JStr ''tok-1'') alice (JStr ''soon'') = (True, undated_store)"
    by code_simp
  have b: "getExpiry undated_store = Some ''soon''"
    by code_simp
  have c: "date_parse ref_platform ''soon'' = None"
    by code_simp
  have d: "getTimeUntilExpiry ref_platform undated_store now = None"
    using b c by (simp add: getTimeUntilExpiry_def)
  show ?thesis using a d by (simp add: isSessionExpiringSoon_def)
qed

theorem getTimeUntilExpiry_unparseable_witness:
  "setSession ref_platform empty_store (JStr ''tok-1'') alice (JStr ''soon'') = (True, undated_store) \<and>
   getTimeUntilExpiry ref_platform undated_store 1893450000000 = None \<and>
   \<not> isSessionExpiringSoon ref_platform undated_store 1893450000000"
  using getTimeUntilExpiry_unparseable [of 1893450000000] by blast

text \<open>
  Claim C8, as amended. For a non-empty token, a snapshot with the required fields that
  \<^verbatim>\<open>JSON.parse\<close> restores from its \<^verbatim>\<open>JSON.stringify\<close> text, and a non-empty expiry that
  parses to a future time: when the store takes the three writes, \<^verbatim>\<open>setSession\<close> returns
  \<^verbatim>\<open>true\<close> and \<^verbatim>\<open>getToken\<close>, \<^verbatim>\<open>getUser\<close> and \<^verbatim>\<open>getExpiry\<close> then return exactly the
  three values (and the session is valid); when the store rejects one of the writes,
  \<^verbatim>\<open>setSession\<close> returns \<^verbatim>\<open>false\<close>. A store with free room for the three entries takes
  the writes (\<open>room_session_fits\<close>).
\<close>

theorem session_round_trip:
  assumes "t \<noteq> []"
    and "has_required_fields u"
    and "json_stringify env u = Some s" and "s \<noteq> []" and "json_parse env s = Some u"
    and "e \<noteq> []" and "date_parse env e = Some d" and "now < d"
  shows "(session_fits ls t s e \<longrightarrow>
            (\<exists>ls'. setSession env ls (JStr t) u (JStr e) = (True, ls') \<and>
                   getToken ls' = Some t \<and> getUser env ls' = Some u \<and> getExpiry ls' = Some e \<and>
                   isSessionValid env ls' now)) \<and>
         (\<not> session_fits ls t s e \<longrightarrow> fst (setSession env ls (JStr t) u (JStr e)) = False)"
proof (intro conjI impI)
  have ut: "user_text env u = s"
    using assms(3) by (simp add: user_text_def)
  {
    assume fits: "session_fits ls t s e"
    have "fst (setSession env ls (JStr t) u (JStr e)) = True"
      using setSession_fits [of "JStr t" u "JStr e" ls env] assms(1,6)
        has_required_fields_truthy [OF assms(2)] fits ut by simp
    then obtain ls' where r: "setSession env ls (JStr t) u (JStr e) = (True, ls')"
      by (cases "setSession env ls (JStr t) u (JStr e)") auto
    have k: "getItem ls' tokenKey = Some t" "getItem ls' userKey = Some s"
      "getItem ls' expiryKey = Some e"
      using setSession_True [OF r] keys_distinct ut by simp_all
    have u: "getUser env ls' = Some u"
      using k assms by (simp add: getUser_Some_iff)
    have v: "isSessionValid env ls' now"
      using k assms by (auto simp: isSessionValid_iff)
    show "\<exists>ls'. setSession env ls (JStr t) u (JStr e) = (True, ls') \<and>
                   getToken ls' = Some t \<and> getUser env ls' = Some u \<and> getExpiry ls' = Some e \<and>
                   isSessionValid env ls' now"
      using r k u v by (simp add: getToken_def getExpiry_def)
  }
  {
    assume "\<not> session_fits ls t s e"
    then show "fst (setSession env ls (JStr t) u (JStr e)) = False"
      using setSession_not_fits [of ls "JStr t" env u "JStr e"] ut by simp
  }
qed

text \<open>
  The claim as stated fails: on a store that is full, \<^verbatim>\<open>setSession\<close> with a well-formed
  triple returns \<^verbatim>\<open>false\<close>, and the three readers return the old session, not the
  triple.
\<close>

theorem session_round_trip_counterexample:
  "''token-2'' \<noteq> [] \<and> has_required_fields bob \<and>
   json_parse ref_platform (user_text ref_platform bob) = Some bob \<and>
   date_parse ref_platform ''2031-01-01T00:00:00Z'' = Some 1924992000000 \<and>
   (1893450000000 :: int) < 1924992000000 \<and>
   fst (setSession ref_platform full_store (JStr ''token-2'') bob (JStr ''2031-01-01T00:00:00Z''))
     = False \<and>
   getToken (snd (setSession ref_platform full_store (JStr ''token-2'') bob
                    (JStr ''2031-01-01T00:00:00Z''))) = Some ''tok-1'' \<and>
   getUser ref_platform (snd (setSession ref_platform full_store (JStr ''token-2'') bob
                    (JStr ''2031-01-01T00:00:00Z''))) = Some alice \<and>
   getExpiry (snd (setSession ref_platform full_store (JStr ''token-2'') bob
                    (JStr ''2031-01-01T00:00:00Z''))) = Some ''2030-01-01T00:00:00Z''"
proof (intro conjI)
  show "''token-2'' \<noteq> []" by simp
  show "has_required_fields bob" by (simp add: has_required_fields_def bob_def)
  show "json_parse ref_platform (user_text ref_platform bob) = Some bob" by code_simp
  show "date_parse ref_platform ''2031-01-01T00:00:00Z'' = Some 1924992000000" by code_simp
  show "(1893450000000 :: int) < 1924992000000" by simp
  show "fst (setSession ref_platform full_store (JStr ''token-2'') bob (JStr ''2031-01-01T00:00:00Z''))
     = False" by code_simp
  show "getToken (snd (setSession ref_platform full_store (JStr ''token-2'') bob
                    (JStr ''2031-01-01T00:00:00Z''))) = Some ''tok-1''" by code_simp
  show "getUser ref_platform (snd (setSession ref_platform full_store (JStr ''token-2'') bob
                    (JStr ''2031-01-01T00:00:00Z''))) = Some alice" by code_simp
  show "getExpiry (snd (setSession ref_platform full_store (JStr ''token-2'') bob
                    (JStr ''2031-01-01T00:00:00Z''))) = Some ''2030-01-01T00:00:00Z''" by code_simp
qed

theorem session_round_trip_witness:
  "''tok-1'' \<noteq> [] \<and> has_required_fields alice \<and>
   json_stringify ref_platform alice = Some (json_text alice) \<and> json_text alice \<noteq> [] \<and>
   json_parse ref_platform (json_text alice) = Some alice \<and>
   ''2030-01-01T00:00:00Z'' \<noteq> [] \<and>
   date_parse ref_platform ''2030-01-01T00:00:00Z'' = Some 1893456000000 \<and>
   (1893450000000 :: int) < 1893456000000 \<and>
   session_fits empty_store ''tok-1'' (json_text alice) ''2030-01-01T00:00:00Z'' \<and>
   (\<exists>ls'. setSession ref_platform empty_store (JStr ''tok-1'') alice (JStr ''2030-01-01T00:00:00Z'')
            = (True, ls') \<and>
          getToken ls' = Some ''tok-1'' \<and> getUser ref_platform ls' = Some alice \<and>
          getExpiry ls' = Some ''2030-01-01T00:00:00Z'' \<and>
          isSessionValid ref_platform ls' 1893450000000) \<and>
   ''tok-10'' \<noteq> [] \<and>
   \<not> session_fits full_store ''tok-10'' (json_text alice) ''2030-01-01T00:00:00Z'' \<and>
   fst (setSession ref_platform full_store (JStr ''tok-10'') alice (JStr ''2030-01-01T00:00:00Z''))
     = False"
proof -
  have h1: "''tok-1'' \<noteq> []" by simp
  have h2: "has_required_fields alice" by (simp add: has_required_fields_def alice_def)
  have h3: "json_stringify ref_platform alice = Some (json_text alice)"
    by (simp add: ref_platform_def json_write_def alice_def)
  have h4: "json_text alice \<noteq> []" by (simp add: alice_def)
  have h5: "json_parse ref_platform (json_text alice) = Some alice" by code_simp
  have h6: "''2030-01-01T00:00:00Z'' \<noteq> []" by simp
  have h7: "date_parse ref_platform ''2030-01-01T00:00:00Z'' = Some 1893456000000" by code_simp
  have h8: "(1893450000000 :: int) < 1893456000000" by simp
  have f: "session_fits empty_store ''tok-1'' (json_text alice) ''2030-01-01T00:00:00Z''"
    by code_simp
  have g1: "''tok-10'' \<noteq> []" by simp
  have n: "\<not> session_fits full_store ''tok-10'' (json_text alice) ''2030-01-01T00:00:00Z''"
    by code_simp
  show ?thesis
    using session_round_trip [OF h1 h2 h3 h4 h5 h6 h7 h8, of empty_store]
      session_round_trip [OF g1 h2 h3 h4 h5 h6 h7 h8, of full_store]
      h1 h2 h3 h4 h5 h6 h7 h8 f g1 n
    by blast
qed

text \<open>
  Claim C9. \<^verbatim>\<open>isLoggedIn\<close> returns the same value as \<^verbatim>\<open>isSessionValid\<close>: the second
  conjunct is redundant, because \<^verbatim>\<open>isSessionValid\<close> is false whenever \<^verbatim>\<open>getUser\<close> is
  \<^verbatim>\<open>null\<close>.
\<close>

theorem isLoggedIn_is_isSessionValid:
  "isLoggedIn env ls now = isSessionValid env ls now \<and>
   (getUser env ls = None \<longrightarrow> \<not> isSessionValid env ls now)"
  by (auto simp: isLoggedIn_def isSessionValid_def Let_def)

theorem isLoggedIn_is_isSessionValid_witness:
  "isLoggedIn ref_platform stored_session 1893450000000 \<and>
   isSessionValid ref_platform stored_session 1893450000000 \<and>
   getUser ref_platform (removeItem stored_session userKey) = None \<and>
   \<not> isSessionValid ref_platform (removeItem stored_session userKey) 1893450000000 \<and>
   \<not> isLoggedIn ref_platform (removeItem stored_session userKey) 1893450000000"
proof -
  have a: "isSessionValid ref_platform stored_session 1893450000000"
    by code_simp
  have b: "getUser ref_platform (removeItem stored_session userKey) = None"
    by code_simp
  show ?thesis
    using isLoggedIn_is_isSessionValid [of ref_platform stored_session 1893450000000]
      isLoggedIn_is_isSessionValid [of ref_platform "removeItem stored_session userKey" 1893450000000]
      a b
    by blast
qed




end
